theory Spec2Isabelle
  imports Main "HOL-Library.Sublist"
begin

section \<open>Strings\<close>

text \<open>
  A JavaScript string is a sequence of UTF-16 code units. The model keeps the code units
  \<open>0..255\<close> (Basic Latin and Latin-1 Supplement), one \<^typ>\<open>char\<close> each; on these
  \<open>toLowerCase\<close> and \<open>trim\<close> are what ECMAScript defines. Strings with code units above
  \<open>U+00FF\<close> are outside the model.
\<close>

definition toLowerCaseUnit :: "char \<Rightarrow> char" where
  \<comment> \<open>Unicode lower-case mapping on \<open>U+0000..U+00FF\<close>: \<open>A..Z\<close> and \<open>U+00C0..U+00DE\<close> without
      the multiplication sign \<open>U+00D7\<close> move up by 32; every other unit is kept.\<close>
  "toLowerCaseUnit c =
     (let n = (of_char c :: nat)
      in if (65 \<le> n \<and> n \<le> 90) \<or> (192 \<le> n \<and> n \<le> 222 \<and> n \<noteq> 215)
         then char_of (n + 32) else c)"

definition toLowerCase :: "string \<Rightarrow> string" where
  "toLowerCase s = map toLowerCaseUnit s"

definition isWhiteSpace :: "char \<Rightarrow> bool" where
  \<comment> \<open>White space and line terminators of ECMAScript below \<open>U+0100\<close>:
      TAB, LF, VT, FF, CR, SPACE and NO-BREAK SPACE.\<close>
  "isWhiteSpace c = ((of_char c :: nat) \<in> {9, 10, 11, 12, 13, 32, 160})"

definition trim :: "string \<Rightarrow> string" where
  "trim s = rev (dropWhile isWhiteSpace (rev (dropWhile isWhiteSpace s)))"

fun startsWith :: "string \<Rightarrow> string \<Rightarrow> bool" where
  "startsWith s [] = True"
| "startsWith [] (c # cs) = False"
| "startsWith (d # ds) (c # cs) = (d = c \<and> startsWith ds cs)"

fun includesStr :: "string \<Rightarrow> string \<Rightarrow> bool" where
  \<comment> \<open>\<open>s.includes(sub)\<close>: \<open>sub\<close> occurs in \<open>s\<close> as a contiguous run of code units.\<close>
  "includesStr [] sub = (sub = [])"
| "includesStr (d # ds) sub = (startsWith (d # ds) sub \<or> includesStr ds sub)"

definition digitChar :: "nat \<Rightarrow> char" where
  "digitChar d = char_of (48 + d)"

fun toString :: "nat \<Rightarrow> string" where
  \<comment> \<open>Decimal rendering of a non-negative integer inside a template literal.\<close>
  "toString n = (if n < 10 then [digitChar n] else toString (n div 10) @ [digitChar (n mod 10)])"

declare toString.simps [simp del]

section \<open>Records fetched from the API\<close>

text \<open>
  The API delivers every field as a string or \<open>null\<close>; \<open>None\<close> stands for a field that is
  \<open>null\<close> or missing from the JSON object.
\<close>

record team =
  idTeam :: "string option"
  strTeam :: "string option"
  strTeamBadge :: "string option"
  strLeague :: "string option"
  strStadium :: "string option"
  strStadiumLocation :: "string option"
  intFormedYear :: "string option"

record player =
  strPlayer :: "string option"
  strPosition :: "string option"
  strNationality :: "string option"
  strThumb :: "string option"
  strCutout :: "string option"
  dateBorn :: "string option"
  strSigning :: "string option"

datatype js_error = TypeError | SyntaxError | Error string

text \<open>A call either returns a value or throws, leaving behind the state it had reached.\<close>

type_synonym 'a outcome = "js_error \<times> 'a + 'a"

section \<open>ApiService\<close>

text \<open>
  What the network answers to one GET request: \<open>fetch\<close> rejects, or resolves to a response
  with its \<open>ok\<close> flag and a body. The body fails to parse, parses to \<open>null\<close>, or parses to a
  value whose list field (\<open>teams\<close>, \<open>player\<close>) is an array or is \<open>null\<close>/missing.
\<close>

datatype 'a json_body = Malformed | JsonNull | JsonValue "'a list option"

datatype 'a fetch_result = NetworkFailure | HttpResponse bool "'a json_body"

fun getTeamsByCountry :: "team fetch_result \<Rightarrow> js_error + team list" where
  "getTeamsByCountry NetworkFailure = Inl TypeError"
| "getTeamsByCountry (HttpResponse ok body) =
     (if \<not> ok then Inl (Error ''Error al cargar equipos'')
      else case body of
             Malformed \<Rightarrow> Inl SyntaxError
           | JsonNull \<Rightarrow> Inl TypeError
           | JsonValue None \<Rightarrow> Inr []
           | JsonValue (Some ts) \<Rightarrow> Inr ts)"

fun getPlayersByTeam :: "player fetch_result \<Rightarrow> js_error + player list" where
  "getPlayersByTeam NetworkFailure = Inl TypeError"
| "getPlayersByTeam (HttpResponse ok body) =
     (if \<not> ok then Inl (Error ''Error al cargar jugadores'')
      else case body of
             Malformed \<Rightarrow> Inl SyntaxError
           | JsonNull \<Rightarrow> Inl TypeError
           | JsonValue None \<Rightarrow> Inr []
           | JsonValue (Some ps) \<Rightarrow> Inr ps)"

section \<open>UIManager\<close>

text \<open>
  The page is modelled by the elements that \<open>cacheElements\<close> looks up, each holding what
  was last written to it. All of them exist in the page. The toasts appended to the
  \<open>notification\<close> element are kept in the order they were shown, each with its message and
  its type.
\<close>

datatype team_card = GridCard team | ListCard team

datatype teams_view = NoTeamsFound | Cards "team_card list"

record ui_manager =
  countrySelect :: string
  teamsContainer :: teams_view
  teamsCount :: string
  totalTeams :: string
  countryTitle :: string
  loadingOverlay :: bool
  notification :: "(string \<times> string) list"
  playersSection :: bool
  teamInfo :: bool
  emptyPlayers :: bool
  playersContainer :: "player list"
  teamBadge :: "string \<times> string"
  teamName :: string
  teamDetails :: "string \<times> string option"
  playersTitle :: string
  gridViewBtn :: bool
  listViewBtn :: bool

definition createTeamCard :: "team \<Rightarrow> string \<Rightarrow> team_card" where
  "createTeamCard t viewType = (if viewType = ''grid'' then GridCard t else ListCard t)"

definition displayTeams :: "team list \<Rightarrow> string \<Rightarrow> ui_manager \<Rightarrow> ui_manager" where
  "displayTeams ts viewType ui =
     (if length ts = 0 then ui\<lparr>teamsContainer := NoTeamsFound\<rparr>
      else ui\<lparr>teamsContainer := Cards (map (\<lambda>t. createTeamCard t viewType) ts)\<rparr>)"

definition displayPlayers ::
  "player list \<Rightarrow> string \<Rightarrow> string \<Rightarrow> string \<Rightarrow> string option \<Rightarrow> ui_manager \<Rightarrow> ui_manager" where
  \<comment> \<open>\<open>country\<close> is \<open>None\<close> when the caller leaves the fifth argument out.\<close>
  "displayPlayers players tName tBadge tLeague country ui =
     (let ui1 = ui\<lparr>teamInfo := True,
                    teamBadge := (if tBadge = [] then ''https://via.placeholder.com/50x50?text=Team''
                                  else tBadge, tName),
                    teamName := tName,
                    teamDetails := (if tLeague = [] then ''Sin liga'' else tLeague, country),
                    playersTitle := ''Plantilla: '' @ tName,
                    playersContainer := []\<rparr>
      in if length players = 0 then ui1\<lparr>emptyPlayers := True\<rparr>
         else ui1\<lparr>emptyPlayers := False, playersContainer := players, playersSection := True\<rparr>)"

definition updateCounters :: "nat \<Rightarrow> nat option \<Rightarrow> ui_manager \<Rightarrow> ui_manager" where
  "updateCounters n tot ui =
     (let ui1 = ui\<lparr>teamsCount := toString n @ '' equipos''\<rparr>
      in case tot of None \<Rightarrow> ui1 | Some m \<Rightarrow> ui1\<lparr>totalTeams := toString m\<rparr>)"

definition updateCountryTitle :: "string \<Rightarrow> ui_manager \<Rightarrow> ui_manager" where
  "updateCountryTitle country ui =
     ui\<lparr>countryTitle := (if country \<noteq> [] then ''Equipos de '' @ country else ''Equipos'')\<rparr>"

definition showLoading :: "bool \<Rightarrow> ui_manager \<Rightarrow> ui_manager" where
  "showLoading show ui = ui\<lparr>loadingOverlay := show\<rparr>"

definition showNotification :: "string \<Rightarrow> string \<Rightarrow> ui_manager \<Rightarrow> ui_manager" where
  "showNotification message type ui = ui\<lparr>notification := notification ui @ [(message, type)]\<rparr>"

definition hidePlayersSection :: "ui_manager \<Rightarrow> ui_manager" where
  "hidePlayersSection ui = ui\<lparr>playersSection := False, teamInfo := False, emptyPlayers := False\<rparr>"


section \<open>TeamManager, PlayerManager and the application object\<close>

record team_manager =
  teams :: "team list"
  filteredTeams :: "team list"
  currentCountry :: string
  currentView :: string
  searchTerm :: string

record team_context =
  name :: string
  badge :: string
  league :: string

record player_manager =
  currentPlayers :: "player list"
  currentTeam :: "team_context option"

text \<open>Both managers hold the same \<open>UIManager\<close> object, so the application has one of it.\<close>

record app =
  teamManager :: team_manager
  playerManager :: player_manager
  uiManager :: ui_manager

definition newTeamManager :: team_manager where
  "newTeamManager =
     \<lparr>teams = [], filteredTeams = [], currentCountry = [], currentView = ''grid'', searchTerm = []\<rparr>"

definition newPlayerManager :: player_manager where
  "newPlayerManager = \<lparr>currentPlayers = [], currentTeam = None\<rparr>"

definition FootballApp :: "ui_manager \<Rightarrow> app" where
  "FootballApp page =
     \<lparr>teamManager = newTeamManager, playerManager = newPlayerManager, uiManager = page\<rparr>"

definition runFinally :: "(ui_manager \<Rightarrow> ui_manager) \<Rightarrow> app outcome \<Rightarrow> app outcome" where
  \<comment> \<open>A \<open>finally\<close> block that only calls the UI: it runs on both exits of the \<open>try\<close>.\<close>
  "runFinally f r =
     (case r of
        Inl (e, s) \<Rightarrow> Inl (e, s\<lparr>uiManager := f (uiManager s)\<rparr>)
      | Inr s \<Rightarrow> Inr (s\<lparr>uiManager := f (uiManager s)\<rparr>))"

definition threw :: "'a outcome \<Rightarrow> bool" where
  "threw r = (case r of Inl err \<Rightarrow> True | Inr s \<Rightarrow> False)"

definition stateAfter :: "'a outcome \<Rightarrow> 'a" where
  \<comment> \<open>The state once the call is over, whether it returned or threw.\<close>
  "stateAfter r = (case r of Inl (e, s) \<Rightarrow> s | Inr s \<Rightarrow> s)"

subsection \<open>TeamManager.loadTeams\<close>

definition loadTeams_try :: "string \<Rightarrow> team fetch_result \<Rightarrow> app \<Rightarrow> app outcome" where
  "loadTeams_try country resp s =
     (case getTeamsByCountry resp of
        Inl e \<Rightarrow> Inl (e, s)
      | Inr ts \<Rightarrow>
          (let tm = (teamManager s)\<lparr>teams := ts, filteredTeams := ts, searchTerm := []\<rparr>;
               ui1 = displayTeams (filteredTeams tm) (currentView tm) (uiManager s);
               ui2 = updateCounters (length (filteredTeams tm)) (Some (length (teams tm))) ui1;
               ui3 = showNotification
                       (toString (length (teams tm)) @ '' equipos cargados de '' @ country)
                       ''success'' ui2;
               ui4 = hidePlayersSection ui3
           in Inr (s\<lparr>teamManager := tm, uiManager := ui4\<rparr>)))"

definition loadTeams_catch :: "js_error \<Rightarrow> app \<Rightarrow> app outcome" where
  "loadTeams_catch e s =
     (let ui1 = showNotification ''Error al cargar los equipos'' ''error'' (uiManager s);
          ui2 = displayTeams [] (currentView (teamManager s)) ui1
      in Inr (s\<lparr>uiManager := ui2\<rparr>))"

definition loadTeams :: "string option \<Rightarrow> team fetch_result \<Rightarrow> app \<Rightarrow> app outcome" where
  \<comment> \<open>\<open>resp\<close> is what the network answers if the request is made.\<close>
  "loadTeams country resp s =
     (case country of
        None \<Rightarrow> Inr s
      | Some c \<Rightarrow>
          if c = [] then Inr s
          else
            (let s1 = s\<lparr>teamManager := (teamManager s)\<lparr>currentCountry := c\<rparr>,
                        uiManager := updateCountryTitle c (showLoading True (uiManager s))\<rparr>
             in runFinally (showLoading False)
                  (case loadTeams_try c resp s1 of
                     Inl (e, s2) \<Rightarrow> loadTeams_catch e s2
                   | Inr s2 \<Rightarrow> Inr s2)))"

subsection \<open>TeamManager.filterTeams\<close>

fun guardedIncludes :: "string option \<Rightarrow> string \<Rightarrow> bool" where
  \<comment> \<open>\<open>field && field.toLowerCase().includes(term)\<close>: \<open>null\<close>, \<open>undefined\<close> and \<open>""\<close> are falsy.\<close>
  "guardedIncludes None term = False"
| "guardedIncludes (Some v) term = (v \<noteq> [] \<and> includesStr (toLowerCase v) term)"

definition teamMatches :: "string \<Rightarrow> team \<Rightarrow> js_error + bool" where
  \<comment> \<open>The arrow function given to \<open>filter\<close>; \<open>strTeam\<close> is dereferenced without a guard.\<close>
  "teamMatches term t =
     (case strTeam t of
        None \<Rightarrow> Inl TypeError
      | Some n \<Rightarrow>
          Inr (includesStr (toLowerCase n) term
               \<or> guardedIncludes (strLeague t) term
               \<or> guardedIncludes (strStadium t) term))"

fun filterArray :: "('a \<Rightarrow> js_error + bool) \<Rightarrow> 'a list \<Rightarrow> js_error + 'a list" where
  \<comment> \<open>\<open>Array.prototype.filter\<close>: the callback runs on each element in order; the first
      exception ends the call.\<close>
  "filterArray f [] = Inr []"
| "filterArray f (x # xs) =
     (case f x of
        Inl e \<Rightarrow> Inl e
      | Inr b \<Rightarrow>
          (case filterArray f xs of
             Inl e \<Rightarrow> Inl e
           | Inr ys \<Rightarrow> Inr (if b then x # ys else ys)))"

definition selectTeams :: "string \<Rightarrow> team list \<Rightarrow> js_error + team list" where
  \<comment> \<open>The \<open>if\<close>/\<open>else\<close> of \<open>filterTeams\<close>: the value assigned to \<open>filteredTeams\<close> for the
      normalised term and the loaded list.\<close>
  "selectTeams term ts = (if term = [] then Inr ts else filterArray (teamMatches term) ts)"

definition filterList :: "team list \<Rightarrow> string \<Rightarrow> js_error + team list" where
  \<comment> \<open>\<open>filterTeams\<close> as a function of the loaded list and the text typed by the user.\<close>
  "filterList ts text = selectTeams (trim (toLowerCase text)) ts"

definition filterTeams :: "string \<Rightarrow> app \<Rightarrow> app outcome" where
  "filterTeams text s =
     (let tm1 = (teamManager s)\<lparr>searchTerm := trim (toLowerCase text)\<rparr>;
          s1 = s\<lparr>teamManager := tm1\<rparr>
      in case selectTeams (searchTerm tm1) (teams tm1) of
           Inl e \<Rightarrow> Inl (e, s1)
         | Inr ft \<Rightarrow>
             (let tm2 = tm1\<lparr>filteredTeams := ft\<rparr>;
                  ui1 = displayTeams (filteredTeams tm2) (currentView tm2) (uiManager s1);
                  ui2 = updateCounters (length (filteredTeams tm2)) None ui1
              in Inr (s1\<lparr>teamManager := tm2, uiManager := ui2\<rparr>)))"

subsection \<open>TeamManager.switchView and clearTeams\<close>


definition clearTeams :: "app \<Rightarrow> app" where
  "clearTeams s =
     (let tm = (teamManager s)\<lparr>teams := [], filteredTeams := [], currentCountry := [],
                               searchTerm := []\<rparr>;
          ui1 = displayTeams [] (currentView tm) (uiManager s);
          ui2 = updateCounters 0 None ui1;
          ui3 = updateCountryTitle [] ui2
      in s\<lparr>teamManager := tm, uiManager := ui3\<rparr>)"

subsection \<open>PlayerManager\<close>

definition loadPlayers_try ::
  "string \<Rightarrow> string \<Rightarrow> string \<Rightarrow> player fetch_result \<Rightarrow> app \<Rightarrow> app outcome" where
  "loadPlayers_try tName tBadge tLeague resp s =
     (case getPlayersByTeam resp of
        Inl e \<Rightarrow> Inl (e, s)
      | Inr players \<Rightarrow>
          (let pm = (playerManager s)\<lparr>currentPlayers := players,
                       currentTeam := Some \<lparr>name = tName, badge = tBadge, league = tLeague\<rparr>\<rparr>;
               country = countrySelect (uiManager s);
               ui1 = displayPlayers players tName tBadge tLeague (Some country) (uiManager s);
               ui2 = showNotification (toString (length players) @ '' jugadores cargados'')
                       ''success'' ui1
           in Inr (s\<lparr>playerManager := pm, uiManager := ui2\<rparr>)))"

definition loadPlayers_catch :: "string \<Rightarrow> string \<Rightarrow> string \<Rightarrow> js_error \<Rightarrow> app \<Rightarrow> app outcome" where
  "loadPlayers_catch tName tBadge tLeague e s =
     (let ui1 = showNotification ''Error al cargar los jugadores'' ''error'' (uiManager s);
          ui2 = displayPlayers [] tName tBadge tLeague None ui1
      in Inr (s\<lparr>uiManager := ui2\<rparr>))"

definition loadPlayers ::
  "string option \<Rightarrow> string \<Rightarrow> string \<Rightarrow> string \<Rightarrow> player fetch_result \<Rightarrow> app \<Rightarrow> app outcome" where
  "loadPlayers teamId tName tBadge tLeague resp s =
     (case teamId of
        None \<Rightarrow> Inr s
      | Some i \<Rightarrow>
          if i = [] then Inr s
          else
            (let s1 = s\<lparr>uiManager := showLoading True (uiManager s)\<rparr>
             in runFinally (showLoading False)
                  (case loadPlayers_try tName tBadge tLeague resp s1 of
                     Inl (e, s2) \<Rightarrow> loadPlayers_catch tName tBadge tLeague e s2
                   | Inr s2 \<Rightarrow> Inr s2)))"

definition hidePlayers :: "app \<Rightarrow> app" where
  "hidePlayers s =
     s\<lparr>playerManager := (playerManager s)\<lparr>currentPlayers := [], currentTeam := None\<rparr>,
       uiManager := hidePlayersSection (uiManager s)\<rparr>"

subsection \<open>Sequences of user actions\<close>

text \<open>
  The two actions that change the team list or its filtered view, each with what it is
  given; a sequence is run until a call throws.
\<close>

datatype action = LoadTeams "string option" "team fetch_result" | FilterTeams string

fun perform :: "action \<Rightarrow> app \<Rightarrow> app outcome" where
  "perform (LoadTeams country resp) s = loadTeams country resp s"
| "perform (FilterTeams text) s = filterTeams text s"

fun performAll :: "action list \<Rightarrow> app \<Rightarrow> app outcome" where
  "performAll [] s = Inr s"
| "performAll (a # as) s =
     (case perform a s of Inl err \<Rightarrow> Inl err | Inr s1 \<Rightarrow> performAll as s1)"

fun fetchedTeams :: "action \<Rightarrow> team list" where
  \<comment> \<open>The teams an action can bring into the application.\<close>
  "fetchedTeams (LoadTeams country resp) =
     (case getTeamsByCountry resp of Inl e \<Rightarrow> [] | Inr ts \<Rightarrow> ts)"
| "fetchedTeams (FilterTeams text) = []"

definition hasName :: "team \<Rightarrow> bool" where
  "hasName t = (strTeam t \<noteq> None)"

subsection \<open>The filtered view in the words of the specification\<close>

fun fieldContains :: "string option \<Rightarrow> string \<Rightarrow> bool" where
  \<comment> \<open>A field case-insensitively contains the text; an absent field contains nothing.\<close>
  "fieldContains None text = False"
| "fieldContains (Some v) text = includesStr (toLowerCase v) text"

definition spec_matches :: "string \<Rightarrow> team \<Rightarrow> bool" where
  \<comment> \<open>Name, league or stadium location contains the filter text.\<close>
  "spec_matches text t =
     (fieldContains (strTeam t) text \<or> fieldContains (strLeague t) text
      \<or> fieldContains (strStadiumLocation t) text)"

definition spec_filteredView :: "app \<Rightarrow> team list" where
  "spec_filteredView s =
     filter (spec_matches (searchTerm (teamManager s))) (teams (teamManager s))"

definition stadium_matches :: "string \<Rightarrow> team \<Rightarrow> bool" where
  \<comment> \<open>Name, league or stadium name (\<open>strStadium\<close>) contains the filter text.\<close>
  "stadium_matches text t =
     (fieldContains (strTeam t) text \<or> fieldContains (strLeague t) text
      \<or> fieldContains (strStadium t) text)"

subsection \<open>Sample data\<close>

definition blankPage :: ui_manager where
  "blankPage =
     \<lparr>countrySelect = ''Spain'', teamsContainer = Cards [], teamsCount = [], totalTeams = [],
      countryTitle = ''Equipos'', loadingOverlay = False, notification = [],
      playersSection = False, teamInfo = False, emptyPlayers = False, playersContainer = [],
      teamBadge = ([], []), teamName = [], teamDetails = ([], None), playersTitle = [],
      gridViewBtn = True, listViewBtn = False\<rparr>"

definition namedTeam :: "string \<Rightarrow> team" where
  "namedTeam n =
     \<lparr>idTeam = None, strTeam = Some n, strTeamBadge = None, strLeague = None,
      strStadium = None, strStadiumLocation = None, intFormedYear = None\<rparr>"

definition realBetis :: team where
  "realBetis = namedTeam ''Real Betis''"

definition sevillaFC :: team where
  "sevillaFC = namedTeam ''Sevilla FC''"

definition namelessTeam :: team where
  "namelessTeam = (namedTeam [])\<lparr>strTeam := None, strLeague := Some ''Spanish La Liga''\<rparr>"

definition somePlayer :: player where
  "somePlayer =
     \<lparr>strPlayer = Some ''Isco'', strPosition = None, strNationality = None, strThumb = None,
      strCutout = None, dateBorn = None, strSigning = None\<rparr>"

definition teamsResponse :: "team list \<Rightarrow> team fetch_result" where
  "teamsResponse ts = HttpResponse True (JsonValue (Some ts))"

definition http500 :: "'a fetch_result" where
  "http500 = HttpResponse False Malformed"

definition spainLoaded :: app where
  \<comment> \<open>The application after the teams of Spain, Real Betis and Sevilla FC, have been loaded.\<close>
  "spainLoaded =
     stateAfter (loadTeams (Some ''Spain'') (teamsResponse [realBetis, sevillaFC])
                   (FootballApp blankPage))"

definition betisInSevilla :: team where
  \<comment> \<open>Real Betis with the city of its stadium filled in.\<close>
  "betisInSevilla = realBetis\<lparr>strStadiumLocation := Some ''Sevilla''\<rparr>"

definition scenario :: "team list \<Rightarrow> action list" where
  \<comment> \<open>Load the teams of Spain, then type \<open>sevilla\<close> into the search box.\<close>
  "scenario ts = [LoadTeams (Some ''Spain'') (teamsResponse ts), FilterTeams ''sevilla'']"

definition rosterOpen :: app where
  \<comment> \<open>Then the roster of Real Betis, one player, has been opened.\<close>
  "rosterOpen =
     stateAfter (loadPlayers (Some ''133722'') ''Real Betis'' ''betis.png'' ''Spanish La Liga''
                   (HttpResponse True (JsonValue (Some [somePlayer]))) spainLoaded)"

definition failedReload :: app where
  \<comment> \<open>With the roster open, the teams of France are requested and the server answers 500.\<close>
  "failedReload = stateAfter (loadTeams (Some ''France'') http500 rosterOpen)"

definition failedRoster :: app where
  \<comment> \<open>With the roster of Real Betis open, the roster of Sevilla FC is requested and the
      server answers 500.\<close>
  "failedRoster =
     stateAfter (loadPlayers (Some ''133739'') ''Sevilla FC'' ''sevilla.png'' ''Spanish La Liga''
                   http500 rosterOpen)"

definition sevillaFiltered :: app where
  \<comment> \<open>With the roster open, \<open>sevilla\<close> has been typed into the search box.\<close>
  "sevillaFiltered = stateAfter (filterTeams ''sevilla'' rosterOpen)"

subsection \<open>The invariant of the filtered view\<close>

definition allNamed :: "action list \<Rightarrow> bool" where
  \<comment> \<open>Every team that the actions fetch has a name.\<close>
  "allNamed as = list_all (\<lambda>a. list_all hasName (fetchedTeams a)) as"

definition viewInvariant :: "app \<Rightarrow> bool" where
  "viewInvariant s \<longleftrightarrow>
     list_all hasName (teams (teamManager s)) \<and>
     filteredTeams (teamManager s) =
       filter (stadium_matches (searchTerm (teamManager s))) (teams (teamManager s))"

text \<open>
  What the calls made so far say about the list on display and the text in force. A load
  that fetches successfully brings its list and an empty text; a \<open>filterTeams\<close> call
  brings its text; a load for an absent or empty country brings nothing. After a load
  whose fetch failed both are \<open>None\<close>: nothing is said about them until a later call
  brings them again.
\<close>

fun noteAction ::
  "action \<Rightarrow> team list option \<times> string option \<Rightarrow> team list option \<times> string option" where
  "noteAction (FilterTeams text) (L, txt) = (L, Some text)"
| "noteAction (LoadTeams country resp) (L, txt) =
     (case country of
        None \<Rightarrow> (L, txt)
      | Some c \<Rightarrow>
          if c = [] then (L, txt)
          else (case getTeamsByCountry resp of
                  Inl e \<Rightarrow> (None, None)
                | Inr ts \<Rightarrow> (Some ts, Some [])))"

fun noteAll ::
  "action list \<Rightarrow> team list option \<times> string option \<Rightarrow> team list option \<times> string option" where
  "noteAll [] p = p"
| "noteAll (a # as) p = noteAll as (noteAction a p)"

definition loadedList :: "action list \<Rightarrow> team list option" where
  \<comment> \<open>The list fetched by the latest load, starting from no teams.\<close>
  "loadedList as = fst (noteAll as (Some [], Some []))"

definition typedText :: "action list \<Rightarrow> string option" where
  \<comment> \<open>The text of the latest \<open>filterTeams\<close> call, as typed; empty when a load has
      succeeded since, or when nothing was typed.\<close>
  "typedText as = snd (noteAll as (Some [], Some []))"

definition tracks :: "app \<Rightarrow> team list option \<times> string option \<Rightarrow> bool" where
  "tracks s p \<longleftrightarrow>
     (case fst p of None \<Rightarrow> True | Some L \<Rightarrow> teams (teamManager s) = L) \<and>
     (case snd p of
        None \<Rightarrow> True
      | Some txt \<Rightarrow> searchTerm (teamManager s) = trim (toLowerCase txt))"

definition typing :: "string \<Rightarrow> team list \<Rightarrow> action list" where
  \<comment> \<open>Load the teams of Spain, then type the text into the search box.\<close>
  "typing text ts = [LoadTeams (Some ''Spain'') (teamsResponse ts), FilterTeams text]"

section \<open>Filtering\<close>

text \<open>
  \<open>trim\<close> removes white space from both ends and nothing else: the string is the result
  between two runs of white space, and a non-empty result starts and ends with a
  character that is not white space. \<open>toLowerCase\<close> keeps the length.
\<close>

lemma trim_decomposition:
  "\<exists>pre post. s = pre @ trim s @ post \<and> list_all isWhiteSpace pre \<and> list_all isWhiteSpace post"
proof -
  let ?a = "dropWhile isWhiteSpace s"
  have whole: "s = takeWhile isWhiteSpace s @ ?a"
    by simp
  have "rev ?a = takeWhile isWhiteSpace (rev ?a) @ dropWhile isWhiteSpace (rev ?a)"
    by simp
  then have "?a = rev (dropWhile isWhiteSpace (rev ?a)) @ rev (takeWhile isWhiteSpace (rev ?a))"
    by (metis rev_append rev_rev_ident)
  then have "s = takeWhile isWhiteSpace s @ trim s @ rev (takeWhile isWhiteSpace (rev ?a))"
    using whole by (simp add: trim_def)
  moreover have "list_all isWhiteSpace (takeWhile isWhiteSpace s)"
    by (simp add: list_all_iff) (meson set_takeWhileD)
  moreover have "list_all isWhiteSpace (rev (takeWhile isWhiteSpace (rev ?a)))"
    by (simp add: list_all_iff) (meson set_takeWhileD)
  ultimately show ?thesis by blast
qed

lemma trim_ends:
  assumes "trim s \<noteq> []"
  shows "\<not> isWhiteSpace (hd (trim s)) \<and> \<not> isWhiteSpace (last (trim s))"
proof -
  let ?a = "dropWhile isWhiteSpace s"
  let ?b = "dropWhile isWhiteSpace (rev ?a)"
  from assms have b: "?b \<noteq> []"
    by (simp add: trim_def)
  have a: "?a \<noteq> []"
  proof
    assume none: "?a = []"
    have "?b = []" unfolding none by simp
    with b show False by contradiction
  qed
  have "last (trim s) = hd ?b"
    using b by (simp add: trim_def last_rev)
  moreover from b have "\<not> isWhiteSpace (hd ?b)"
    by (rule hd_dropWhile)
  moreover have "hd (trim s) = last ?b"
    using b by (simp add: trim_def hd_rev)
  moreover have "last ?b = last (rev ?a)"
    using b by (metis append_Nil2 last_appendR takeWhile_dropWhile_id)
  moreover have "last (rev ?a) = hd ?a"
    using a by (simp add: last_rev)
  moreover from a have "\<not> isWhiteSpace (hd ?a)"
    by (rule hd_dropWhile)
  ultimately show ?thesis by simp
qed

lemma toLowerCase_length: "length (toLowerCase s) = length s"
  by (simp add: toLowerCase_def)

lemma normalise_examples:
  "trim (toLowerCase ''  SeVilla '') = ''sevilla''"
  "trim (toLowerCase ''Real  Betis'') = ''real  betis''"
  by code_simp+

lemma filterArray_returns:
  "filterArray f xs = Inr ys \<Longrightarrow>
     ys = filter (\<lambda>x. f x = Inr True) xs \<and> (\<forall>x\<in>set xs. \<exists>b. f x = Inr b)"
  by (induction xs arbitrary: ys) (auto split: sum.splits if_splits)

lemma filterArray_defined:
  "\<forall>x\<in>set xs. \<exists>b. f x = Inr b \<Longrightarrow>
     filterArray f xs = Inr (filter (\<lambda>x. f x = Inr True) xs)"
  by (induction xs) (auto split: sum.splits)

lemma filterArray_throws: "filterArray f xs = Inl e \<Longrightarrow> \<exists>x\<in>set xs. f x = Inl e"
  by (induction xs) (auto split: sum.splits)

lemma selectTeams_subseq: "selectTeams term ts = Inr r \<Longrightarrow> subseq r ts"
  by (auto simp: selectTeams_def split: if_splits dest!: filterArray_returns)

lemma selectTeams_again:
  assumes "selectTeams term ts = Inr r"
  shows "selectTeams term r = Inr r"
proof (cases "term = []")
  case True
  with assms show ?thesis by (simp add: selectTeams_def)
next
  case False
  with assms have run: "filterArray (teamMatches term) ts = Inr r"
    by (simp add: selectTeams_def)
  from filterArray_returns [OF run]
  have r: "r = filter (\<lambda>x. teamMatches term x = Inr True) ts"
    and ok: "\<forall>x\<in>set ts. \<exists>b. teamMatches term x = Inr b"
    by simp_all
  from r ok have "\<forall>x\<in>set r. \<exists>b. teamMatches term x = Inr b"
    by auto
  then have "filterArray (teamMatches term) r = Inr (filter (\<lambda>x. teamMatches term x = Inr True) r)"
    by (rule filterArray_defined)
  also have "filter (\<lambda>x. teamMatches term x = Inr True) r = r"
    by (simp add: r)
  finally show ?thesis using False by (simp add: selectTeams_def)
qed

lemma normalise_empty: "trim (toLowerCase []) = []"
  by (simp add: trim_def toLowerCase_def)

lemma filterTeams_filterList:
  "filterTeams text s = Inr s' \<Longrightarrow>
     filterList (teams (teamManager s)) text = Inr (filteredTeams (teamManager s')) \<and>
     teams (teamManager s') = teams (teamManager s)"
  by (auto simp: filterTeams_def filterList_def Let_def split: sum.splits)

lemma filterTeams_throws_iff:
  "threw (filterTeams text s) \<longleftrightarrow>
     trim (toLowerCase text) \<noteq> [] \<and> (\<exists>t\<in>set (teams (teamManager s)). strTeam t = None)"
proof -
  let ?key = "trim (toLowerCase text)" and ?ts = "teams (teamManager s)"
  have "threw (filterTeams text s) \<longleftrightarrow> (\<exists>e. selectTeams ?key ?ts = Inl e)"
    by (simp add: filterTeams_def threw_def Let_def split: sum.splits)
  also have "\<dots> \<longleftrightarrow> ?key \<noteq> [] \<and> (\<exists>e. filterArray (teamMatches ?key) ?ts = Inl e)"
    by (simp add: selectTeams_def)
  also have "(\<exists>e. filterArray (teamMatches ?key) ?ts = Inl e) \<longleftrightarrow>
             (\<exists>t\<in>set ?ts. strTeam t = None)"
  proof
    assume "\<exists>e. filterArray (teamMatches ?key) ?ts = Inl e"
    then obtain e t where "t \<in> set ?ts" "teamMatches ?key t = Inl e"
      by (blast dest: filterArray_throws)
    then show "\<exists>t\<in>set ?ts. strTeam t = None"
      by (auto simp: teamMatches_def split: option.splits)
  next
    assume "\<exists>t\<in>set ?ts. strTeam t = None"
    then obtain t where t: "t \<in> set ?ts" "teamMatches ?key t = Inl TypeError"
      by (auto simp: teamMatches_def)
    show "\<exists>e. filterArray (teamMatches ?key) ?ts = Inl e"
    proof (cases "filterArray (teamMatches ?key) ?ts")
      case (Inl e)
      then show ?thesis by blast
    next
      case (Inr ys)
      from filterArray_returns [OF this] t show ?thesis by auto
    qed
  qed
  finally show ?thesis .
qed

text \<open>
  A team without a name makes the call throw once a non-empty term is typed: the search
  term has been stored by then, and the filtered view is still the one from before.
\<close>

lemma nameless_team_throws:
  "threw (performAll (scenario [namelessTeam, sevillaFC]) (FootballApp blankPage))
   \<and> searchTerm (teamManager (stateAfter
       (performAll (scenario [namelessTeam, sevillaFC]) (FootballApp blankPage)))) = ''sevilla''
   \<and> filteredTeams (teamManager (stateAfter
       (performAll (scenario [namelessTeam, sevillaFC]) (FootballApp blankPage))))
      = [namelessTeam, sevillaFC]"
  by code_simp

text \<open>
  C6. The list that \<open>filterTeams\<close> stores as the filtered view is a subsequence of the loaded
  list: every team kept is a loaded team, and the teams kept stand in the order they have
  in the loaded list. The stored list is \<open>filterList\<close> of the loaded list and the text.
\<close>

theorem filterTeams_subseq:
  assumes "filterTeams text s = Inr s'"
  shows "filterList (teams (teamManager s)) text = Inr (filteredTeams (teamManager s'))
         \<and> subseq (filteredTeams (teamManager s')) (teams (teamManager s))"
proof -
  from assms have fl: "filterList (teams (teamManager s)) text = Inr (filteredTeams (teamManager s'))"
    by (simp add: filterTeams_filterList)
  then have "subseq (filteredTeams (teamManager s')) (teams (teamManager s))"
    unfolding filterList_def by (rule selectTeams_subseq)
  with fl show ?thesis by simp
qed

lemma sevilla_returns:
  "filterTeams ''sevilla'' spainLoaded = Inr (stateAfter (filterTeams ''sevilla'' spainLoaded))"
  by code_simp

theorem filterTeams_subseq_witness:
  "filterTeams ''sevilla'' spainLoaded = Inr (stateAfter (filterTeams ''sevilla'' spainLoaded))
   \<and> subseq (filteredTeams (teamManager (stateAfter (filterTeams ''sevilla'' spainLoaded))))
        (teams (teamManager spainLoaded))"
  using filterTeams_subseq [OF sevilla_returns] sevilla_returns by simp

text \<open>
  C7. Filtering with the empty string is the identity: \<open>filterList\<close> returns the loaded
  list itself, and \<open>filterTeams\<close> returns with the filtered view equal to the loaded list.
\<close>

theorem filter_empty_identity:
  "filterList L [] = Inr L
   \<and> \<not> threw (filterTeams [] s)
   \<and> filteredTeams (teamManager (stateAfter (filterTeams [] s))) = teams (teamManager s)"
  by (simp add: filterList_def filterTeams_def selectTeams_def normalise_empty threw_def
      stateAfter_def Let_def)

text \<open>
  C8. Filtering is idempotent: filtering the result of a filter again with the same text
  returns that result unchanged.
\<close>

theorem filterList_idempotent:
  assumes "filterList L text = Inr R"
  shows "filterList R text = Inr R"
  using assms unfolding filterList_def by (rule selectTeams_again)

lemma filterList_sevilla: "filterList [realBetis, sevillaFC] ''Sevilla '' = Inr [sevillaFC]"
  by code_simp

theorem filterList_idempotent_witness:
  "filterList [realBetis, sevillaFC] ''Sevilla '' = Inr [sevillaFC]
   \<and> filterList [sevillaFC] ''Sevilla '' = Inr [sevillaFC]"
  using filterList_idempotent [OF filterList_sevilla] filterList_sevilla by simp

text \<open>
  C10. When every loaded team has a name, \<open>filterTeams\<close> returns for every search string,
  whether or not the league and stadium fields are present.
\<close>

theorem filterTeams_never_throws:
  assumes "\<forall>t\<in>set (teams (teamManager s)). strTeam t \<noteq> None"
  shows "\<exists>s'. filterTeams text s = Inr s'"
proof -
  from assms have "\<not> threw (filterTeams text s)"
    by (simp add: filterTeams_throws_iff)
  then show ?thesis
    by (cases "filterTeams text s") (simp_all add: threw_def)
qed

lemma spainLoaded_teams: "teams (teamManager spainLoaded) = [realBetis, sevillaFC]"
  by code_simp

lemma sample_names: "strTeam realBetis = Some ''Real Betis''" "strTeam sevillaFC = Some ''Sevilla FC''"
  "strLeague realBetis = None" "strStadium sevillaFC = None"
  by (simp_all add: realBetis_def sevillaFC_def namedTeam_def)

theorem filterTeams_never_throws_witness:
  "list_all hasName (teams (teamManager spainLoaded))
   \<and> strLeague realBetis = None \<and> strStadium sevillaFC = None
   \<and> (\<exists>s'. filterTeams ''liga'' spainLoaded = Inr s')"
proof -
  have named: "\<forall>t\<in>set (teams (teamManager spainLoaded)). strTeam t \<noteq> None"
    by (simp add: spainLoaded_teams sample_names)
  from filterTeams_never_throws [OF named, of "''liga''"]
  show ?thesis
    by (simp add: spainLoaded_teams sample_names hasName_def)
qed

section \<open>Closing the roster\<close>

text \<open>
  C9. \<open>hidePlayers\<close> empties the roster and the team context from any state, and doing it
  twice leaves the same state as doing it once.
\<close>

theorem hidePlayers_clears_idempotent:
  "currentPlayers (playerManager (hidePlayers s)) = []
   \<and> currentTeam (playerManager (hidePlayers s)) = None
   \<and> hidePlayers (hidePlayers s) = hidePlayers s"
  by (simp add: hidePlayers_def hidePlayersSection_def)


section \<open>Switching the display mode\<close>





section \<open>Loading teams\<close>

lemma loadTeams_success:
  assumes "c \<noteq> []" "getTeamsByCountry resp = Inr ts"
  shows "loadTeams (Some c) resp s =
     Inr (s\<lparr>teamManager := (teamManager s)\<lparr>currentCountry := c, teams := ts,
                                             filteredTeams := ts, searchTerm := []\<rparr>,
            uiManager := showLoading False (hidePlayersSection
               (showNotification (toString (length ts) @ '' equipos cargados de '' @ c) ''success''
                 (updateCounters (length ts) (Some (length ts))
                   (displayTeams ts (currentView (teamManager s))
                     (updateCountryTitle c (showLoading True (uiManager s)))))))\<rparr>)"
  using assms by (simp add: loadTeams_def loadTeams_try_def runFinally_def Let_def)

lemma loadTeams_failure:
  assumes "c \<noteq> []" "getTeamsByCountry resp = Inl e"
  shows "loadTeams (Some c) resp s =
     Inr (s\<lparr>teamManager := (teamManager s)\<lparr>currentCountry := c\<rparr>,
            uiManager := showLoading False
               (displayTeams [] (currentView (teamManager s))
                 (showNotification ''Error al cargar los equipos'' ''error''
                   (updateCountryTitle c (showLoading True (uiManager s)))))\<rparr>)"
  using assms
  by (simp add: loadTeams_def loadTeams_try_def loadTeams_catch_def runFinally_def Let_def)

lemma getTeamsByCountry_failures:
  "getTeamsByCountry NetworkFailure = Inl TypeError"
  "getTeamsByCountry (HttpResponse False body) = Inl (Error ''Error al cargar equipos'')"
  "getTeamsByCountry (HttpResponse True Malformed) = Inl SyntaxError"
  by simp_all

text \<open>
  What a failed fetch does for every non-empty country and every state: the call returns,
  an error toast is the last one shown, the loading overlay is off and the team container
  shows the empty list, while the stored team list, filtered view and search term are the
  ones from before the call.
\<close>

lemma loadTeams_failure_effects:
  assumes "c \<noteq> []" "getTeamsByCountry resp = Inl e"
  shows "\<not> threw (loadTeams (Some c) resp s)"
    and "last (notification (uiManager (stateAfter (loadTeams (Some c) resp s))))
           = (''Error al cargar los equipos'', ''error'')"
    and "\<not> loadingOverlay (uiManager (stateAfter (loadTeams (Some c) resp s)))"
    and "teamsContainer (uiManager (stateAfter (loadTeams (Some c) resp s))) = NoTeamsFound"
    and "teams (teamManager (stateAfter (loadTeams (Some c) resp s))) = teams (teamManager s)"
    and "filteredTeams (teamManager (stateAfter (loadTeams (Some c) resp s)))
           = filteredTeams (teamManager s)"
    and "searchTerm (teamManager (stateAfter (loadTeams (Some c) resp s)))
           = searchTerm (teamManager s)"
  by (simp_all add: loadTeams_failure [OF assms] threw_def stateAfter_def showLoading_def
      displayTeams_def showNotification_def)

text \<open>
  \<open>clearTeams\<close> is the method that empties the stored lists together with the page.
\<close>

lemma clearTeams_resets:
  "teams (teamManager (clearTeams s)) = []"
  "filteredTeams (teamManager (clearTeams s)) = []"
  "teamsContainer (uiManager (clearTeams s)) = NoTeamsFound"
  by (simp_all add: clearTeams_def Let_def displayTeams_def updateCounters_def
      updateCountryTitle_def)

text \<open>
  C2. The code does not do what the claim says. Spain's two teams are loaded, then the teams
  of France are requested and the server answers 500: the call returns, the error toast is
  shown, the overlay is off and the container shows no teams, but the stored list still
  holds the two Spanish teams under the country France, and the next \<open>filterTeams\<close> call
  puts them back on the page under the title of France.
\<close>

theorem loadTeams_failure_keeps_teams:
  "teams (teamManager rosterOpen) = [realBetis, sevillaFC]
   \<and> \<not> threw (loadTeams (Some ''France'') http500 rosterOpen)
   \<and> teams (teamManager failedReload) = [realBetis, sevillaFC]
   \<and> filteredTeams (teamManager failedReload) = [realBetis, sevillaFC]
   \<and> currentCountry (teamManager failedReload) = ''France''
   \<and> teamsContainer (uiManager failedReload) = NoTeamsFound
   \<and> loadingOverlay (uiManager failedReload) = False
   \<and> last (notification (uiManager failedReload)) = (''Error al cargar los equipos'', ''error'')
   \<and> teamsContainer (uiManager (stateAfter (filterTeams [] failedReload)))
        = Cards [GridCard realBetis, GridCard sevillaFC]
   \<and> countryTitle (uiManager (stateAfter (filterTeams [] failedReload))) = ''Equipos de France''"
  by code_simp

text \<open>
  C3, as stated, fails: with the roster of Real Betis open, a successful \<open>loadTeams\<close> leaves
  the roster and the team context of the player manager as they were.
\<close>

theorem loadTeams_roster_counterexample:
  "\<not> threw (loadTeams (Some ''Spain'') (teamsResponse [realBetis]) sevillaFiltered)
   \<and> currentPlayers (playerManager
        (stateAfter (loadTeams (Some ''Spain'') (teamsResponse [realBetis]) sevillaFiltered)))
       = [somePlayer]
   \<and> currentTeam (playerManager
        (stateAfter (loadTeams (Some ''Spain'') (teamsResponse [realBetis]) sevillaFiltered)))
       = Some \<lparr>name = ''Real Betis'', badge = ''betis.png'', league = ''Spanish La Liga''\<rparr>"
  by code_simp

text \<open>
  C3, amended. For an absent or empty country \<open>loadTeams\<close> returns the state unchanged. For
  a non-empty country whose fetch succeeds it returns with the search term empty, the
  fetched list as both the team list and the filtered view, and the players section, the
  team information and the empty-roster indicator hidden on the page; the player manager
  is not touched.
\<close>

theorem loadTeams_success_resets:
  "loadTeams None resp s = Inr s
   \<and> loadTeams (Some []) resp s = Inr s
   \<and> (c \<noteq> [] \<and> getTeamsByCountry resp = Inr ts \<longrightarrow>
        \<not> threw (loadTeams (Some c) resp s)
        \<and> searchTerm (teamManager (stateAfter (loadTeams (Some c) resp s))) = []
        \<and> teams (teamManager (stateAfter (loadTeams (Some c) resp s))) = ts
        \<and> filteredTeams (teamManager (stateAfter (loadTeams (Some c) resp s))) = ts
        \<and> \<not> playersSection (uiManager (stateAfter (loadTeams (Some c) resp s)))
        \<and> \<not> teamInfo (uiManager (stateAfter (loadTeams (Some c) resp s)))
        \<and> \<not> emptyPlayers (uiManager (stateAfter (loadTeams (Some c) resp s)))
        \<and> playerManager (stateAfter (loadTeams (Some c) resp s)) = playerManager s)"
proof (intro conjI impI)
  show "loadTeams None resp s = Inr s" "loadTeams (Some []) resp s = Inr s"
    by (simp_all add: loadTeams_def)
next
  assume "c \<noteq> [] \<and> getTeamsByCountry resp = Inr ts"
  then have run: "c \<noteq> []" "getTeamsByCountry resp = Inr ts"
    by simp_all
  note unfold = loadTeams_success [OF run] threw_def stateAfter_def showLoading_def
    hidePlayersSection_def
  show "\<not> threw (loadTeams (Some c) resp s)"
    "searchTerm (teamManager (stateAfter (loadTeams (Some c) resp s))) = []"
    "teams (teamManager (stateAfter (loadTeams (Some c) resp s))) = ts"
    "filteredTeams (teamManager (stateAfter (loadTeams (Some c) resp s))) = ts"
    "\<not> playersSection (uiManager (stateAfter (loadTeams (Some c) resp s)))"
    "\<not> teamInfo (uiManager (stateAfter (loadTeams (Some c) resp s)))"
    "\<not> emptyPlayers (uiManager (stateAfter (loadTeams (Some c) resp s)))"
    "playerManager (stateAfter (loadTeams (Some c) resp s)) = playerManager s"
    by (simp_all add: unfold)
qed

lemma sevillaFiltered_before:
  "searchTerm (teamManager sevillaFiltered) = ''sevilla''"
  "playersSection (uiManager sevillaFiltered)"
  by code_simp+

theorem loadTeams_success_resets_witness:
  "getTeamsByCountry (teamsResponse [realBetis]) = Inr [realBetis]
   \<and> searchTerm (teamManager sevillaFiltered) = ''sevilla''
   \<and> playersSection (uiManager sevillaFiltered)
   \<and> \<not> threw (loadTeams (Some ''Spain'') (teamsResponse [realBetis]) sevillaFiltered)
   \<and> searchTerm (teamManager
        (stateAfter (loadTeams (Some ''Spain'') (teamsResponse [realBetis]) sevillaFiltered))) = []
   \<and> filteredTeams (teamManager
        (stateAfter (loadTeams (Some ''Spain'') (teamsResponse [realBetis]) sevillaFiltered)))
       = [realBetis]
   \<and> \<not> playersSection (uiManager
        (stateAfter (loadTeams (Some ''Spain'') (teamsResponse [realBetis]) sevillaFiltered)))
   \<and> loadTeams (Some []) (teamsResponse [realBetis]) sevillaFiltered = Inr sevillaFiltered"
proof -
  have fetched: "getTeamsByCountry (teamsResponse [realBetis]) = Inr [realBetis]"
    by (simp add: teamsResponse_def)
  from loadTeams_success_resets [where c = "''Spain''" and resp = "teamsResponse [realBetis]"
      and ts = "[realBetis]" and s = sevillaFiltered] fetched sevillaFiltered_before
  show ?thesis by simp
qed

section \<open>Loading a roster\<close>

lemma loadPlayers_no_team:
  "loadPlayers None n b l resp s = Inr s" "loadPlayers (Some []) n b l resp s = Inr s"
  by (simp_all add: loadPlayers_def)

lemma loadPlayers_success:
  assumes "i \<noteq> []" "getPlayersByTeam resp = Inr ps"
  shows "loadPlayers (Some i) n b l resp s =
     Inr (s\<lparr>playerManager := (playerManager s)\<lparr>currentPlayers := ps,
                                  currentTeam := Some \<lparr>name = n, badge = b, league = l\<rparr>\<rparr>,
            uiManager := showLoading False
               (showNotification (toString (length ps) @ '' jugadores cargados'') ''success''
                 (displayPlayers ps n b l (Some (countrySelect (uiManager s)))
                   (showLoading True (uiManager s))))\<rparr>)"
  using assms
  by (simp add: loadPlayers_def loadPlayers_try_def runFinally_def Let_def showLoading_def)

lemma loadPlayers_failure:
  assumes "i \<noteq> []" "getPlayersByTeam resp = Inl e"
  shows "loadPlayers (Some i) n b l resp s =
     Inr (s\<lparr>uiManager := showLoading False
               (displayPlayers [] n b l None
                 (showNotification ''Error al cargar los jugadores'' ''error''
                   (showLoading True (uiManager s))))\<rparr>)"
  using assms
  by (simp add: loadPlayers_def loadPlayers_try_def loadPlayers_catch_def runFinally_def Let_def)

text \<open>
  An empty player array is a success: the roster becomes empty, the team context is set,
  the empty-roster indicator is switched on and the only toast added is a success toast.
\<close>

lemma loadPlayers_empty_roster:
  assumes "i \<noteq> []" "getPlayersByTeam resp = Inr []"
  shows "\<not> threw (loadPlayers (Some i) n b l resp s)"
    and "currentPlayers (playerManager (stateAfter (loadPlayers (Some i) n b l resp s))) = []"
    and "currentTeam (playerManager (stateAfter (loadPlayers (Some i) n b l resp s)))
           = Some \<lparr>name = n, badge = b, league = l\<rparr>"
    and "emptyPlayers (uiManager (stateAfter (loadPlayers (Some i) n b l resp s)))"
    and "notification (uiManager (stateAfter (loadPlayers (Some i) n b l resp s)))
           = notification (uiManager s) @ [(''0 jugadores cargados'', ''success'')]"
proof -
  have zero: "toString 0 = ''0''"
    by code_simp
  note unfold = loadPlayers_success [OF assms] threw_def stateAfter_def showLoading_def
    showNotification_def displayPlayers_def Let_def zero
  show "\<not> threw (loadPlayers (Some i) n b l resp s)"
    "currentPlayers (playerManager (stateAfter (loadPlayers (Some i) n b l resp s))) = []"
    "currentTeam (playerManager (stateAfter (loadPlayers (Some i) n b l resp s)))
       = Some \<lparr>name = n, badge = b, league = l\<rparr>"
    "emptyPlayers (uiManager (stateAfter (loadPlayers (Some i) n b l resp s)))"
    "notification (uiManager (stateAfter (loadPlayers (Some i) n b l resp s)))
       = notification (uiManager s) @ [(''0 jugadores cargados'', ''success'')]"
    by (simp_all add: unfold)
qed

text \<open>
  What a failed fetch does for every non-empty team id and every state: the call returns,
  an error toast is the last one shown, the overlay is off and the page shows an empty
  player list with the empty-roster indicator, while the roster and the team context of
  the player manager are the ones from before the call.
\<close>

lemma loadPlayers_failure_effects:
  assumes "i \<noteq> []" "getPlayersByTeam resp = Inl e"
  shows "\<not> threw (loadPlayers (Some i) n b l resp s)"
    and "last (notification (uiManager (stateAfter (loadPlayers (Some i) n b l resp s))))
           = (''Error al cargar los jugadores'', ''error'')"
    and "\<not> loadingOverlay (uiManager (stateAfter (loadPlayers (Some i) n b l resp s)))"
    and "playersContainer (uiManager (stateAfter (loadPlayers (Some i) n b l resp s))) = []"
    and "emptyPlayers (uiManager (stateAfter (loadPlayers (Some i) n b l resp s)))"
    and "playerManager (stateAfter (loadPlayers (Some i) n b l resp s)) = playerManager s"
  by (simp_all add: loadPlayers_failure [OF assms] threw_def stateAfter_def showLoading_def
      displayPlayers_def showNotification_def Let_def)

text \<open>
  C4. The code does not do what the claim says on a failed fetch. With the one-player
  roster of Real Betis open, the roster of Sevilla FC is requested and the server answers
  500: the call returns, the error toast is shown and the page shows the header of Sevilla
  FC over an empty player list, but the player manager still holds the player and the team
  context of Real Betis.
\<close>

theorem loadPlayers_failure_keeps_roster:
  "currentPlayers (playerManager rosterOpen) = [somePlayer]
   \<and> \<not> threw (loadPlayers (Some ''133739'') ''Sevilla FC'' ''sevilla.png'' ''Spanish La Liga''
                 http500 rosterOpen)
   \<and> currentPlayers (playerManager failedRoster) = [somePlayer]
   \<and> currentTeam (playerManager failedRoster)
        = Some \<lparr>name = ''Real Betis'', badge = ''betis.png'', league = ''Spanish La Liga''\<rparr>
   \<and> teamName (uiManager failedRoster) = ''Sevilla FC''
   \<and> playersContainer (uiManager failedRoster) = []
   \<and> emptyPlayers (uiManager failedRoster) = True
   \<and> last (notification (uiManager failedRoster)) = (''Error al cargar los jugadores'', ''error'')"
  by code_simp

section \<open>The filtered view after any sequence of loads and filters\<close>

lemma includesStr_empty: "includesStr s [] = True"
  by (cases s) simp_all

lemma guardedIncludes_fieldContains:
  "term \<noteq> [] \<Longrightarrow> guardedIncludes v term = fieldContains v term"
  by (cases v) (auto simp: toLowerCase_def)

lemma teamMatches_named:
  "strTeam t = Some n \<Longrightarrow> term \<noteq> [] \<Longrightarrow> teamMatches term t = Inr (stadium_matches term t)"
  by (simp add: teamMatches_def stadium_matches_def guardedIncludes_fieldContains)

lemma stadium_matches_empty: "hasName t \<Longrightarrow> stadium_matches [] t"
  by (auto simp: hasName_def stadium_matches_def includesStr_empty)

lemma selectTeams_named:
  assumes "list_all hasName ts"
  shows "selectTeams term ts = Inr (filter (stadium_matches term) ts)"
proof (cases "term = []")
  case True
  from assms have "filter (stadium_matches []) ts = ts"
    by (simp add: list_all_iff stadium_matches_empty)
  with True show ?thesis by (simp add: selectTeams_def)
next
  case False
  from assms False have m: "\<forall>t\<in>set ts. teamMatches term t = Inr (stadium_matches term t)"
    by (auto simp: list_all_iff hasName_def teamMatches_named)
  then have "\<forall>t\<in>set ts. \<exists>b. teamMatches term t = Inr b"
    by blast
  then have "filterArray (teamMatches term) ts
             = Inr (filter (\<lambda>t. teamMatches term t = Inr True) ts)"
    by (rule filterArray_defined)
  also from m have "filter (\<lambda>t. teamMatches term t = Inr True) ts
                    = filter (stadium_matches term) ts"
    by (intro filter_cong) auto
  finally show ?thesis using False by (simp add: selectTeams_def)
qed

lemma filterTeams_invariant:
  assumes "viewInvariant s"
  shows "\<exists>s'. filterTeams text s = Inr s' \<and> viewInvariant s'"
  using assms by (simp add: filterTeams_def viewInvariant_def selectTeams_named Let_def)

lemma loadTeams_invariant:
  assumes "viewInvariant s" "list_all hasName (fetchedTeams (LoadTeams country resp))"
  shows "\<exists>s'. loadTeams country resp s = Inr s' \<and> viewInvariant s'"
proof (cases "country = None \<or> country = Some []")
  case True
  with assms show ?thesis by (auto simp: loadTeams_def)
next
  case False
  then obtain c where c: "country = Some c" "c \<noteq> []"
    by auto
  show ?thesis
  proof (cases "getTeamsByCountry resp")
    case (Inl e)
    from assms(1) show ?thesis
      by (simp add: c loadTeams_failure [OF c(2) Inl] viewInvariant_def)
  next
    case (Inr ts)
    with assms have named: "list_all hasName ts"
      by simp
    then have "filter (stadium_matches []) ts = ts"
      by (simp add: list_all_iff stadium_matches_empty)
    with named show ?thesis
      by (simp add: c loadTeams_success [OF c(2) Inr] viewInvariant_def)
  qed
qed

lemma perform_invariant:
  "viewInvariant s \<Longrightarrow> list_all hasName (fetchedTeams a) \<Longrightarrow>
     \<exists>s'. perform a s = Inr s' \<and> viewInvariant s'"
  by (cases a) (simp_all add: loadTeams_invariant filterTeams_invariant del: fetchedTeams.simps)

lemma performAll_invariant:
  "viewInvariant s \<Longrightarrow> allNamed as \<Longrightarrow> \<exists>s'. performAll as s = Inr s' \<and> viewInvariant s'"
proof (induction as arbitrary: s)
  case Nil
  then show ?case by simp
next
  case (Cons a as)
  from Cons.prems have "list_all hasName (fetchedTeams a)" and rest: "allNamed as"
    by (simp_all add: allNamed_def)
  with Cons.prems(1) obtain s1 where s1: "perform a s = Inr s1" "viewInvariant s1"
    using perform_invariant [of s a] by auto
  from Cons.IH [OF s1(2) rest] s1(1) show ?case by simp
qed

lemma initial_invariant: "viewInvariant (FootballApp page)"
  by (simp add: viewInvariant_def FootballApp_def newTeamManager_def)

lemma scenario_result:
  "map strTeam (filteredTeams (teamManager
     (stateAfter (performAll (scenario [realBetis, sevillaFC]) (FootballApp page)))))
   = [Some ''Sevilla FC'']"
  by code_simp

text \<open>
  C1, as stated, fails: the stadium location is not looked at. Real Betis with stadium
  location \<open>Sevilla\<close> and Sevilla FC are loaded and \<open>sevilla\<close> is typed. Both teams have a
  name or stadium location that contains the filter text, and the filtered view holds
  Sevilla FC alone.
\<close>

theorem stadium_location_counterexample:
  "teams (teamManager (stateAfter
     (performAll (scenario [betisInSevilla, sevillaFC]) (FootballApp blankPage))))
     = [betisInSevilla, sevillaFC]
   \<and> searchTerm (teamManager (stateAfter
       (performAll (scenario [betisInSevilla, sevillaFC]) (FootballApp blankPage)))) = ''sevilla''
   \<and> spec_filteredView (stateAfter
       (performAll (scenario [betisInSevilla, sevillaFC]) (FootballApp blankPage)))
       = [betisInSevilla, sevillaFC]
   \<and> filteredTeams (teamManager (stateAfter
       (performAll (scenario [betisInSevilla, sevillaFC]) (FootballApp blankPage))))
       = [sevillaFC]
   \<and> filteredTeams (teamManager (stateAfter
       (performAll (scenario [betisInSevilla, sevillaFC]) (FootballApp blankPage))))
       \<noteq> spec_filteredView (stateAfter
            (performAll (scenario [betisInSevilla, sevillaFC]) (FootballApp blankPage)))"
  by code_simp

text \<open>
  Every call keeps the state in step with what the calls say: \<open>filterTeams\<close> stores the
  trimmed, lower-cased text, a successful load stores the fetched list and the empty term.
\<close>

lemma filterTeams_stores_term:
  "searchTerm (teamManager (stateAfter (filterTeams text s))) = trim (toLowerCase text)"
  by (simp add: filterTeams_def stateAfter_def Let_def split: sum.splits)

lemma filterTeams_tracks:
  "filterTeams text s = Inr s' \<Longrightarrow> tracks s p \<Longrightarrow> tracks s' (noteAction (FilterTeams text) p)"
  by (cases p) (auto simp: filterTeams_def tracks_def Let_def split: sum.splits option.splits)

lemma loadTeams_tracks:
  assumes "loadTeams country resp s = Inr s'" "tracks s p"
  shows "tracks s' (noteAction (LoadTeams country resp) p)"
proof (cases "country = None \<or> country = Some []")
  case True
  with assms show ?thesis by (cases p) (auto simp: loadTeams_def)
next
  case False
  then obtain c where c: "country = Some c" "c \<noteq> []"
    by auto
  show ?thesis
  proof (cases "getTeamsByCountry resp")
    case (Inl e)
    with c show ?thesis by (cases p) (simp add: tracks_def)
  next
    case (Inr ts)
    from assms(1) have "s' = stateAfter (loadTeams (Some c) resp s)"
      by (simp add: c stateAfter_def)
    with c Inr show ?thesis
      by (cases p)
        (simp add: tracks_def loadTeams_success [OF c(2) Inr] stateAfter_def normalise_empty)
  qed
qed

lemma perform_tracks:
  "perform a s = Inr s' \<Longrightarrow> tracks s p \<Longrightarrow> tracks s' (noteAction a p)"
  by (cases a) (simp_all add: loadTeams_tracks filterTeams_tracks del: noteAction.simps)

lemma performAll_tracks:
  "performAll as s = Inr s' \<Longrightarrow> tracks s p \<Longrightarrow> tracks s' (noteAll as p)"
proof (induction as arbitrary: s p)
  case Nil
  then show ?case by simp
next
  case (Cons a as)
  from Cons.prems(1) obtain s1 where s1: "perform a s = Inr s1" "performAll as s1 = Inr s'"
    by (auto split: sum.splits)
  from perform_tracks [OF s1(1) Cons.prems(2)] have "tracks s1 (noteAction a p)" .
  from Cons.IH [OF s1(2) this] show ?case by simp
qed

lemma initial_tracks: "tracks (FootballApp page) (Some [], Some [])"
  by (simp add: tracks_def FootballApp_def newTeamManager_def normalise_empty)

lemma typing_result:
  "searchTerm (teamManager (stateAfter
     (performAll (typing ''  SeVilla '' [realBetis, sevillaFC]) (FootballApp page)))) = ''sevilla''"
  "map strTeam (filteredTeams (teamManager (stateAfter
     (performAll (typing ''  SeVilla '' [realBetis, sevillaFC]) (FootballApp page)))))
   = [Some ''Sevilla FC'']"
  by code_simp+

text \<open>
  C1, amended. Start from the freshly constructed application and run any sequence of
  \<open>loadTeams\<close> and \<open>filterTeams\<close> calls, with any answers of the network, in which every
  fetched team has a name. No call throws, and in the state reached the filtered view is
  exactly the loaded teams, in their order, whose name, league or stadium name
  (\<open>strStadium\<close>) contains, after lower-casing, the stored search term. The stored search
  term is the text of the latest \<open>filterTeams\<close> call, trimmed and lower-cased, or empty when
  a load has succeeded since; the loaded list is the list fetched by the latest load;
  neither is stated after a load whose fetch failed. In particular, loading Real Betis
  and Sevilla FC and typing \<open>sevilla\<close> leaves exactly Sevilla FC, and so does typing
  \<open>SeVilla\<close> between spaces, for which the stored term is \<open>sevilla\<close>.
\<close>

theorem filtered_view_invariant:
  assumes "allNamed as"
  shows "(\<exists>s. performAll as (FootballApp page) = Inr s
              \<and> filteredTeams (teamManager s)
                  = filter (stadium_matches (searchTerm (teamManager s))) (teams (teamManager s))
              \<and> (case typedText as of
                    None \<Rightarrow> True
                  | Some txt \<Rightarrow> searchTerm (teamManager s) = trim (toLowerCase txt))
              \<and> (case loadedList as of
                    None \<Rightarrow> True
                  | Some L \<Rightarrow> teams (teamManager s) = L))
         \<and> map strTeam (filteredTeams (teamManager
             (stateAfter (performAll (scenario [realBetis, sevillaFC]) (FootballApp page)))))
            = [Some ''Sevilla FC'']
         \<and> searchTerm (teamManager (stateAfter
             (performAll (typing ''  SeVilla '' [realBetis, sevillaFC]) (FootballApp page))))
            = ''sevilla''
         \<and> map strTeam (filteredTeams (teamManager (stateAfter
             (performAll (typing ''  SeVilla '' [realBetis, sevillaFC]) (FootballApp page)))))
            = [Some ''Sevilla FC'']"
proof -
  from performAll_invariant [OF initial_invariant assms, of page]
  obtain s where s: "performAll as (FootballApp page) = Inr s" "viewInvariant s"
    by blast
  from performAll_tracks [OF s(1) initial_tracks]
  have "tracks s (noteAll as (Some [], Some []))" .
  then have tie:
    "case typedText as of
       None \<Rightarrow> True
     | Some txt \<Rightarrow> searchTerm (teamManager s) = trim (toLowerCase txt)"
    "case loadedList as of None \<Rightarrow> True | Some L \<Rightarrow> teams (teamManager s) = L"
    by (simp_all add: tracks_def typedText_def loadedList_def)
  from s(2) have "filteredTeams (teamManager s)
      = filter (stadium_matches (searchTerm (teamManager s))) (teams (teamManager s))"
    by (simp add: viewInvariant_def)
  with s(1) tie have "\<exists>s. performAll as (FootballApp page) = Inr s
              \<and> filteredTeams (teamManager s)
                  = filter (stadium_matches (searchTerm (teamManager s))) (teams (teamManager s))
              \<and> (case typedText as of
                    None \<Rightarrow> True
                  | Some txt \<Rightarrow> searchTerm (teamManager s) = trim (toLowerCase txt))
              \<and> (case loadedList as of
                    None \<Rightarrow> True
                  | Some L \<Rightarrow> teams (teamManager s) = L)"
    by blast
  with scenario_result typing_result show ?thesis by simp
qed

lemma typing_facts:
  "allNamed (typing ''  SeVilla '' [betisInSevilla, sevillaFC])"
  "typedText (typing ''  SeVilla '' [betisInSevilla, sevillaFC]) = Some ''  SeVilla ''"
  "loadedList (typing ''  SeVilla '' [betisInSevilla, sevillaFC])
     = Some [betisInSevilla, sevillaFC]"
  by code_simp+

theorem filtered_view_invariant_witness:
  "allNamed (typing ''  SeVilla '' [betisInSevilla, sevillaFC])
   \<and> typedText (typing ''  SeVilla '' [betisInSevilla, sevillaFC]) = Some ''  SeVilla ''
   \<and> loadedList (typing ''  SeVilla '' [betisInSevilla, sevillaFC])
       = Some [betisInSevilla, sevillaFC]
   \<and> \<not> threw (performAll (typing ''  SeVilla '' [betisInSevilla, sevillaFC])
                 (FootballApp blankPage))
   \<and> searchTerm (teamManager (stateAfter
       (performAll (typing ''  SeVilla '' [betisInSevilla, sevillaFC]) (FootballApp blankPage))))
      = ''sevilla''
   \<and> teams (teamManager (stateAfter
       (performAll (typing ''  SeVilla '' [betisInSevilla, sevillaFC]) (FootballApp blankPage))))
      = [betisInSevilla, sevillaFC]
   \<and> filteredTeams (teamManager (stateAfter
       (performAll (typing ''  SeVilla '' [betisInSevilla, sevillaFC]) (FootballApp blankPage))))
      = filter (stadium_matches ''sevilla'') [betisInSevilla, sevillaFC]"
proof -
  let ?r = "performAll (typing ''  SeVilla '' [betisInSevilla, sevillaFC]) (FootballApp blankPage)"
  from filtered_view_invariant [OF typing_facts(1), of blankPage]
  obtain s where s: "?r = Inr s"
    "filteredTeams (teamManager s)
       = filter (stadium_matches (searchTerm (teamManager s))) (teams (teamManager s))"
    "searchTerm (teamManager s) = ''sevilla''"
    "teams (teamManager s) = [betisInSevilla, sevillaFC]"
    by (auto simp: typing_facts normalise_examples)
  from s(1) have "stateAfter ?r = s" "\<not> threw ?r"
    by (simp_all add: stateAfter_def threw_def)
  with s(2,3,4) typing_facts show ?thesis by simp
qed

end
